theory Spec2Isabelle
  imports Main "HOL-Library.Word"
begin

unbundle bit_operations_syntax

section \<open>Values of the Go program\<close>

text \<open>
  The package envy (file envy.go) reads environment variables as typed values. Go strings are
  byte sequences: \<open>string\<close>. The types int64, uint64 and time.Duration are 64-bit words
  (int64 and time.Duration read through \<open>sint\<close>, uint64 through \<open>unat\<close>). The width of int and
  uint depends on the platform (32 or 64 bits): it is the length of the type \<open>'w\<close>. Values of
  float64 are kept abstract, in a type \<open>'f\<close> with a zero.
\<close>

type_synonym byte = "8 word"
type_synonym int64 = "64 word"
type_synonym uint64 = "64 word"

text \<open>
  The Go interface \<open>error\<close>, for the errors this program meets: \<open>errors.New(text)\<close>,
  strconv's \<open>*NumError{Func, Num, Err}\<close>, and the error built in failCast by
  \<open>fmt.Errorf("failed to parse %s as %s: %w", variable, typeName, err)\<close>, which keeps its
  three arguments.
\<close>

datatype error =
    errorString string
  | NumError string string error
  | FailedToParse string string error

definition ErrSyntax :: error where
  "ErrSyntax = errorString ''invalid syntax''"

definition ErrRange :: error where
  "ErrRange = errorString ''value out of range''"

text \<open>Decimal rendering of a natural number (strconv.Itoa on a non-negative int).\<close>

function Itoa :: "nat \<Rightarrow> string" where
  "Itoa n = (if n < 10 then [char_of (48 + n)] else Itoa (n div 10) @ [char_of (48 + n mod 10)])"
  by pat_completeness auto
termination
  by (relation "measure id") auto

text \<open>
  The method \<open>Error()\<close>: the message of an error. strconv.Quote, which \<open>*NumError\<close> applies
  to the rejected input, is the parameter \<open>quote\<close>.
\<close>

fun Error :: "(string \<Rightarrow> string) \<Rightarrow> error \<Rightarrow> string" where
  "Error quote (errorString s) = s"
| "Error quote (NumError fn num err) =
     ''strconv.'' @ fn @ '': parsing '' @ quote num @ '': '' @ Error quote err"
| "Error quote (FailedToParse variable ty err) =
     ''failed to parse '' @ variable @ '' as '' @ ty @ '': '' @ Error quote err"

text \<open>
  A panic: the value given to \<open>panic\<close>, or the run-time error of an assignment through a nil
  pointer.
\<close>

datatype panic = Panic error | NilDereference

section \<open>The functions of strconv that envy calls\<close>

text \<open>
  These belong to the Go standard library. ParseUint and ParseInt are written out for base 10,
  the only base envy passes; the case of an underscore, which the library accepts for base 0
  alone, is therefore absent. A result is the pair (value, error) of the Go function, with
  \<open>None\<close> for a nil error.
\<close>

definition syntaxError :: "string \<Rightarrow> string \<Rightarrow> error" where
  "syntaxError fn str = NumError fn str ErrSyntax"

definition rangeError :: "string \<Rightarrow> string \<Rightarrow> error" where
  "rangeError fn str = NumError fn str ErrRange"

definition bitSizeError :: "string \<Rightarrow> string \<Rightarrow> nat \<Rightarrow> error" where
  "bitSizeError fn str bitSize = NumError fn str (errorString (''invalid bit size '' @ Itoa bitSize))"

definition lower :: "byte \<Rightarrow> byte" where
  "lower c = c OR 32"

text \<open>The loop of ParseUint over the bytes of the input; \<open>n\<close> is the number read so far.\<close>

fun ParseUint_loop :: "string \<Rightarrow> uint64 \<Rightarrow> byte list \<Rightarrow> uint64 \<Rightarrow> uint64 \<times> error option" where
  "ParseUint_loop s0 maxVal [] n = (n, None)"
| "ParseUint_loop s0 maxVal (c # cs) n =
     (if \<not> (48 \<le> c \<and> c \<le> 57) \<and> \<not> (97 \<le> lower c \<and> lower c \<le> 122)
      then (0, Some (syntaxError ''ParseUint'' s0))
      else
        let d = (if 48 \<le> c \<and> c \<le> 57 then c - 48 else lower c - 97 + 10) in
        if d \<ge> 10 then (0, Some (syntaxError ''ParseUint'' s0))
        else if n \<ge> 1844674407370955162 then (maxVal, Some (rangeError ''ParseUint'' s0))
        else
          let n' = n * 10; n1 = n' + ucast d in
          if n1 < n' \<or> n1 > maxVal then (maxVal, Some (rangeError ''ParseUint'' s0))
          else ParseUint_loop s0 maxVal cs n1)"

text \<open>
  \<open>ParseUint s bitSize\<close> is \<open>strconv.ParseUint(s, 10, bitSize)\<close> for a positive bit size.
  The library replaces the bit size 0 by the width of int; its one caller with bit size 0,
  Atoi, passes that width here.
\<close>

definition ParseUint :: "string \<Rightarrow> nat \<Rightarrow> uint64 \<times> error option" where
  "ParseUint s bitSize =
     (if s = [] then (0, Some (syntaxError ''ParseUint'' s))
      else if bitSize > 64 then (0, Some (bitSizeError ''ParseUint'' s bitSize))
      else
        let maxVal = push_bit bitSize 1 - 1 in
        ParseUint_loop s maxVal (map of_char s) 0)"

text \<open>\<open>ParseInt s bitSize\<close> is \<open>strconv.ParseInt(s, 10, bitSize)\<close>, likewise.\<close>

definition ParseInt :: "string \<Rightarrow> nat \<Rightarrow> int64 \<times> error option" where
  "ParseInt s0 bitSize =
     (if s0 = [] then (0, Some (syntaxError ''ParseInt'' s0))
      else
        let neg = (hd s0 = CHR ''-'');
            s = (if hd s0 = CHR ''+'' \<or> hd s0 = CHR ''-'' then tl s0 else s0);
            (un, err) = ParseUint s bitSize
        in
        case (case err of
                Some (NumError fn num e) \<Rightarrow> if e \<noteq> ErrRange then Some (NumError ''ParseInt'' s0 e) else None
              | _ \<Rightarrow> None) of
          Some err' \<Rightarrow> (0, Some err')
        | None \<Rightarrow>
            let cutoff = (push_bit (bitSize - 1) 1 :: uint64) in
            if \<not> neg \<and> un \<ge> cutoff then (cutoff - 1, Some (rangeError ''ParseInt'' s0))
            else if neg \<and> un > cutoff then (- cutoff, Some (rangeError ''ParseInt'' s0))
            else (if neg then - un else un, None))"

text \<open>
  strconv.Atoi, for an int of the width of \<open>'w\<close>: short inputs are read directly, the others
  through ParseInt with bit size 0 (the width of int), and the error names Atoi.
\<close>

fun Atoi_loop :: "byte list \<Rightarrow> 'w::len word \<Rightarrow> 'w word option" where
  "Atoi_loop [] n = Some n"
| "Atoi_loop (ch # cs) n =
     (let ch' = ch - 48 in
      if ch' > 9 then None else Atoi_loop cs (n * 10 + ucast ch'))"

definition Atoi :: "string \<Rightarrow> 'w::len word \<times> error option" where
  "Atoi s0 =
     (let intSize = LENGTH('w); sLen = length s0 in
      if intSize = 32 \<and> (0 < sLen \<and> sLen < 10) \<or> intSize = 64 \<and> (0 < sLen \<and> sLen < 19)
      then
        let signed = (hd s0 = CHR ''-'' \<or> hd s0 = CHR ''+'');
            s = (if signed then tl s0 else s0)
        in
        if signed \<and> length s < 1 then (0, Some (syntaxError ''Atoi'' s0))
        else
          (case Atoi_loop (map of_char s) 0 of
             None \<Rightarrow> (0, Some (syntaxError ''Atoi'' s0))
           | Some n \<Rightarrow> (if hd s0 = CHR ''-'' then - n else n, None))
      else
        let (i64, err) = ParseInt s0 intSize in
        (ucast i64,
         case err of
           Some (NumError fn num e) \<Rightarrow> Some (NumError ''Atoi'' num e)
         | other \<Rightarrow> other))"

text \<open>strconv.ParseBool.\<close>

definition ParseBool :: "string \<Rightarrow> bool \<times> error option" where
  "ParseBool str =
     (if str \<in> set [''1'', ''t'', ''T'', ''TRUE'', ''true'', ''True''] then (True, None)
      else if str \<in> set [''0'', ''f'', ''F'', ''FALSE'', ''false'', ''False''] then (False, None)
      else (False, Some (syntaxError ''ParseBool'' str)))"

section \<open>The package envy\<close>

subsection \<open>Environment, memory and the queue\<close>

text \<open>
  The process environment as \<open>os.LookupEnv\<close> reads it: \<open>env name = Some v\<close> when the variable
  is present with value \<open>v\<close> (possibly empty), \<open>None\<close> when it is absent. envy never writes it.
\<close>

type_synonym env = "string \<rightharpoonup> string"

text \<open>\<open>type caster[T any] func(string) (T, error)\<close>\<close>

type_synonym 'a caster = "string \<Rightarrow> 'a \<times> error option"

text \<open>
  What a memory cell holds: a value of one of the eight types the package handles. The type
  \<open>'i\<close> of the values of int and uint is \<open>'w word\<close> throughout.
\<close>

datatype ('i, 'f) val =
    VString string
  | VInt 'i
  | VInt64 int64
  | VUint 'i
  | VUint64 uint64
  | VFloat64 'f
  | VBool bool
  | VDuration int64

text \<open>
  The type parameter \<open>T\<close> of the generic functions is passed explicitly. failCast and value
  use nothing of \<open>T\<close> but the name that \<open>reflect.TypeOf(zero).String()\<close> returns: they take
  that name. setVar also assigns a \<open>T\<close> to a cell: it takes, beside the name, the constructor
  of \<open>val\<close> for \<open>T\<close> (\<open>box\<close>).
\<close>

text \<open>
  A pointer \<open>*T\<close> is nil or the address of a cell. The memory keeps, beside the cells, the
  history of the assignments made through pointers, oldest first.
\<close>

datatype ptr = nil | Addr nat

record 'v memory =
  cells :: "nat \<Rightarrow> 'v"
  writes :: "(nat \<times> 'v) list"

text \<open>The assignment \<open>*addr = v\<close>.\<close>

fun store :: "ptr \<Rightarrow> 'v \<Rightarrow> 'v memory \<Rightarrow> panic option \<times> 'v memory" where
  "store nil v m = (Some NilDereference, m)"
| "store (Addr a) v m = (None, m\<lparr>cells := (cells m)(a := v), writes := writes m @ [(a, v)]\<rparr>)"

text \<open>
  \<open>var vars []func()\<close>: an element is a closure that, when called, reads the environment and
  acts on the memory; it ends normally (\<open>None\<close>) or in a panic.
\<close>

type_synonym 'v closure = "env \<Rightarrow> 'v memory \<Rightarrow> panic option \<times> 'v memory"

record 'v state =
  mem :: "'v memory"
  vars :: "'v closure list"

text \<open>At program start \<open>vars\<close> is nil: the state with an empty queue, over a memory \<open>m\<close>.\<close>

definition init :: "'v memory \<Rightarrow> 'v state" where
  "init m = \<lparr>mem = m, vars = []\<rparr>"

subsection \<open>Converters and failCast\<close>

definition castString :: "string caster" where
  "castString s = (s, None)"

definition castInt64 :: "int64 caster" where
  "castInt64 s =
     (let (i, err) = ParseInt s 64 in
      if err \<noteq> None then (0, err) else (i, None))"

definition castUint64 :: "uint64 caster" where
  "castUint64 s =
     (let (i, err) = ParseUint s 64 in
      if err \<noteq> None then (0, err) else (i, None))"

definition castUint :: "'w::len word caster" where
  "castUint s =
     (let (i, err) = castUint64 s in
      if err \<noteq> None then (0, err) else (ucast i, None))"

text \<open>strconv.ParseFloat(s, 64) is the parameter \<open>ParseFloat\<close>.\<close>

definition castFloat64 :: "('f::zero) caster \<Rightarrow> 'f caster" where
  "castFloat64 ParseFloat s =
     (let (f, err) = ParseFloat s in
      if err \<noteq> None then (0, err) else (f, None))"

definition castDuration :: "int64 caster" where
  "castDuration s =
     (let (i, err) = castInt64 s in
      if err \<noteq> None then (0, err) else (i, None))"

text \<open>
  failCast panics with the error built by fmt.Errorf. Its result is the panic, if any, in
  which the call ends.
\<close>

definition failCast :: "string \<Rightarrow> string \<Rightarrow> error \<Rightarrow> panic option" where
  "failCast T variable err = Some (Panic (FailedToParse variable T err))"

subsection \<open>Immediate accessors\<close>

definition value' :: "string \<Rightarrow> env \<Rightarrow> string \<Rightarrow> 'a \<Rightarrow> 'a caster \<Rightarrow> panic + 'a" where
  "value' T env name val convert =
     (case env name of
        None \<Rightarrow> Inr val
      | Some s \<Rightarrow>
          let (v, err) = convert s in
          case (case err of Some e \<Rightarrow> failCast T name e | None \<Rightarrow> None) of
            Some p \<Rightarrow> Inl p
          | None \<Rightarrow> Inr v)"

definition String :: "env \<Rightarrow> string \<Rightarrow> string \<Rightarrow> panic + string" where
  "String env name defaultValue = value' ''string'' env name defaultValue castString"

definition Int' :: "env \<Rightarrow> string \<Rightarrow> 'w::len word \<Rightarrow> panic + 'w word" where
  "Int' env name defaultValue = value' ''int'' env name defaultValue Atoi"

definition Int64 :: "env \<Rightarrow> string \<Rightarrow> int64 \<Rightarrow> panic + int64" where
  "Int64 env name defaultValue = value' ''int64'' env name defaultValue castInt64"

definition Uint :: "env \<Rightarrow> string \<Rightarrow> 'w::len word \<Rightarrow> panic + 'w word" where
  "Uint env name defaultValue = value' ''uint'' env name defaultValue castUint"

definition Uint64 :: "env \<Rightarrow> string \<Rightarrow> uint64 \<Rightarrow> panic + uint64" where
  "Uint64 env name defaultValue = value' ''uint64'' env name defaultValue castUint64"

definition Float64 :: "('f::zero) caster \<Rightarrow> env \<Rightarrow> string \<Rightarrow> 'f \<Rightarrow> panic + 'f" where
  "Float64 ParseFloat env name defaultValue =
     value' ''float64'' env name defaultValue (castFloat64 ParseFloat)"

definition Bool :: "env \<Rightarrow> string \<Rightarrow> bool \<Rightarrow> panic + bool" where
  "Bool env name defaultValue = value' ''bool'' env name defaultValue ParseBool"

definition Duration :: "env \<Rightarrow> string \<Rightarrow> int64 \<Rightarrow> panic + int64" where
  "Duration env name defaultValue = value' ''time.Duration'' env name defaultValue castDuration"

subsection \<open>Deferred registration and Parse\<close>

definition setVar ::
  "string \<Rightarrow> ('a \<Rightarrow> 'v) \<Rightarrow> env \<Rightarrow> ptr \<Rightarrow> string \<Rightarrow> 'a \<Rightarrow> 'a caster \<Rightarrow> 'v memory \<Rightarrow> panic option \<times> 'v memory" where
  "setVar T box env addr name defaultValue cast m =
     (case env name of
        None \<Rightarrow> store addr (box defaultValue) m
      | Some v \<Rightarrow>
          let (cv, err) = cast v in
          case (case err of Some e \<Rightarrow> failCast T name e | None \<Rightarrow> None) of
            Some p \<Rightarrow> (Some p, m)
          | None \<Rightarrow> store addr (box cv) m)"

text \<open>
  queueSetVar appends to \<open>vars\<close> the closure \<open>func() { setVar(addr, name, defaultValue, cast) }\<close>.
\<close>

definition queueSetVar ::
  "string \<Rightarrow> ('a \<Rightarrow> 'v) \<Rightarrow> ptr \<Rightarrow> string \<Rightarrow> 'a \<Rightarrow> 'a caster \<Rightarrow> 'v state \<Rightarrow> 'v state" where
  "queueSetVar T box addr name defaultValue cast st =
     st\<lparr>vars := vars st @ [\<lambda>env. setVar T box env addr name defaultValue cast]\<rparr>"

definition StringVar ::
  "ptr \<Rightarrow> string \<Rightarrow> string \<Rightarrow> ('w word, 'f) val state \<Rightarrow> ('w word, 'f) val state" where
  "StringVar addr name defaultValue = queueSetVar ''string'' VString addr name defaultValue castString"

definition IntVar ::
  "ptr \<Rightarrow> string \<Rightarrow> 'w::len word \<Rightarrow> ('w word, 'f) val state \<Rightarrow> ('w word, 'f) val state" where
  "IntVar addr name defaultValue = queueSetVar ''int'' VInt addr name defaultValue Atoi"

definition Int64Var ::
  "ptr \<Rightarrow> string \<Rightarrow> int64 \<Rightarrow> ('w word, 'f) val state \<Rightarrow> ('w word, 'f) val state" where
  "Int64Var addr name defaultValue = queueSetVar ''int64'' VInt64 addr name defaultValue castInt64"

definition UintVar ::
  "ptr \<Rightarrow> string \<Rightarrow> 'w::len word \<Rightarrow> ('w word, 'f) val state \<Rightarrow> ('w word, 'f) val state" where
  "UintVar addr name defaultValue = queueSetVar ''uint'' VUint addr name defaultValue castUint"

definition Uint64Var ::
  "ptr \<Rightarrow> string \<Rightarrow> uint64 \<Rightarrow> ('w word, 'f) val state \<Rightarrow> ('w word, 'f) val state" where
  "Uint64Var addr name defaultValue = queueSetVar ''uint64'' VUint64 addr name defaultValue castUint64"

definition Float64Var ::
  "('f::zero) caster \<Rightarrow> ptr \<Rightarrow> string \<Rightarrow> 'f \<Rightarrow> ('w word, 'f) val state \<Rightarrow> ('w word, 'f) val state" where
  "Float64Var ParseFloat addr name defaultValue =
     queueSetVar ''float64'' VFloat64 addr name defaultValue (castFloat64 ParseFloat)"

definition BoolVar ::
  "ptr \<Rightarrow> string \<Rightarrow> bool \<Rightarrow> ('w word, 'f) val state \<Rightarrow> ('w word, 'f) val state" where
  "BoolVar addr name defaultValue = queueSetVar ''bool'' VBool addr name defaultValue ParseBool"

definition DurationVar ::
  "ptr \<Rightarrow> string \<Rightarrow> int64 \<Rightarrow> ('w word, 'f) val state \<Rightarrow> ('w word, 'f) val state" where
  "DurationVar addr name defaultValue =
     queueSetVar ''time.Duration'' VDuration addr name defaultValue castDuration"

text \<open>
  \<open>for _, fn := range vars { fn() }\<close>: the range expression is evaluated once, before the
  first call, so the loop runs over the closures that \<open>vars\<close> holds when Parse is called, in
  order. A panic of a closure ends the loop and Parse at once; the state is then as the
  closures run so far have left it.
\<close>

fun Parse_loop :: "'v closure list \<Rightarrow> env \<Rightarrow> 'v state \<Rightarrow> panic option \<times> 'v state" where
  "Parse_loop [] env st = (None, st)"
| "Parse_loop (fn # fns) env st =
     (case fn env (mem st) of
        (Some p, m') \<Rightarrow> (Some p, st\<lparr>mem := m'\<rparr>)
      | (None, m') \<Rightarrow> Parse_loop fns env (st\<lparr>mem := m'\<rparr>))"

definition Parse :: "env \<Rightarrow> 'v state \<Rightarrow> panic option \<times> 'v state" where
  "Parse env st = Parse_loop (vars st) env st"






section \<open>Vocabulary for the properties\<close>

text \<open>
  A call of one of the eight registering functions (StringVar, IntVar, Int64Var, UintVar,
  Uint64Var, Float64Var, BoolVar, DurationVar), as data: destination, variable name, default.
  With it a property can speak of every sequence of such calls.
\<close>

datatype ('i, 'f) registration =
    RegString ptr string string
  | RegInt ptr string 'i
  | RegInt64 ptr string int64
  | RegUint ptr string 'i
  | RegUint64 ptr string uint64
  | RegFloat64 ptr string 'f
  | RegBool ptr string bool
  | RegDuration ptr string int64

text \<open>Making the call.\<close>

fun register ::
  "('f::zero) caster \<Rightarrow> ('w::len word, 'f) registration \<Rightarrow> ('w word, 'f) val state \<Rightarrow> ('w word, 'f) val state" where
  "register pf (RegString addr name d) = StringVar addr name d"
| "register pf (RegInt addr name d) = IntVar addr name d"
| "register pf (RegInt64 addr name d) = Int64Var addr name d"
| "register pf (RegUint addr name d) = UintVar addr name d"
| "register pf (RegUint64 addr name d) = Uint64Var addr name d"
| "register pf (RegFloat64 addr name d) = Float64Var pf addr name d"
| "register pf (RegBool addr name d) = BoolVar addr name d"
| "register pf (RegDuration addr name d) = DurationVar addr name d"

definition register_all ::
  "('f::zero) caster \<Rightarrow> ('w::len word, 'f) registration list \<Rightarrow> ('w word, 'f) val state \<Rightarrow> ('w word, 'f) val state" where
  "register_all pf rs st = fold (register pf) rs st"

fun dest :: "('i, 'f) registration \<Rightarrow> ptr" where
  "dest (RegString addr name d) = addr"
| "dest (RegInt addr name d) = addr"
| "dest (RegInt64 addr name d) = addr"
| "dest (RegUint addr name d) = addr"
| "dest (RegUint64 addr name d) = addr"
| "dest (RegFloat64 addr name d) = addr"
| "dest (RegBool addr name d) = addr"
| "dest (RegDuration addr name d) = addr"

fun var_name :: "('i, 'f) registration \<Rightarrow> string" where
  "var_name (RegString addr name d) = name"
| "var_name (RegInt addr name d) = name"
| "var_name (RegInt64 addr name d) = name"
| "var_name (RegUint addr name d) = name"
| "var_name (RegUint64 addr name d) = name"
| "var_name (RegFloat64 addr name d) = name"
| "var_name (RegBool addr name d) = name"
| "var_name (RegDuration addr name d) = name"

fun default_val :: "('i, 'f) registration \<Rightarrow> ('i, 'f) val" where
  "default_val (RegString addr name d) = VString d"
| "default_val (RegInt addr name d) = VInt d"
| "default_val (RegInt64 addr name d) = VInt64 d"
| "default_val (RegUint addr name d) = VUint d"
| "default_val (RegUint64 addr name d) = VUint64 d"
| "default_val (RegFloat64 addr name d) = VFloat64 d"
| "default_val (RegBool addr name d) = VBool d"
| "default_val (RegDuration addr name d) = VDuration d"

text \<open>The name of the Go type of the destination.\<close>

fun type_name :: "('i, 'f) registration \<Rightarrow> string" where
  "type_name (RegString addr name d) = ''string''"
| "type_name (RegInt addr name d) = ''int''"
| "type_name (RegInt64 addr name d) = ''int64''"
| "type_name (RegUint addr name d) = ''uint''"
| "type_name (RegUint64 addr name d) = ''uint64''"
| "type_name (RegFloat64 addr name d) = ''float64''"
| "type_name (RegBool addr name d) = ''bool''"
| "type_name (RegDuration addr name d) = ''time.Duration''"

text \<open>The error, if any, with which the converter of the type rejects the text \<open>v\<close>.\<close>

fun convert_error :: "('f::zero) caster \<Rightarrow> ('w::len word, 'f) registration \<Rightarrow> string \<Rightarrow> error option" where
  "convert_error pf (RegString addr name d) v = snd (castString v)"
| "convert_error pf (RegInt addr name d) v = snd (Atoi v :: 'w word \<times> error option)"
| "convert_error pf (RegInt64 addr name d) v = snd (castInt64 v)"
| "convert_error pf (RegUint addr name d) v = snd (castUint v :: 'w word \<times> error option)"
| "convert_error pf (RegUint64 addr name d) v = snd (castUint64 v)"
| "convert_error pf (RegFloat64 addr name d) v = snd (castFloat64 pf v)"
| "convert_error pf (RegBool addr name d) v = snd (ParseBool v)"
| "convert_error pf (RegDuration addr name d) v = snd (castDuration v)"

text \<open>
  The resolved value of a registration in an environment: what the immediate accessor of the
  same type returns for the same name and default (a panic, or the value, here as a \<open>val\<close>).
\<close>

fun resolve :: "('f::zero) caster \<Rightarrow> env \<Rightarrow> ('w::len word, 'f) registration \<Rightarrow> panic + ('w word, 'f) val" where
  "resolve pf env (RegString addr name d) = map_sum id VString (String env name d)"
| "resolve pf env (RegInt addr name d) = map_sum id VInt (Int' env name d)"
| "resolve pf env (RegInt64 addr name d) = map_sum id VInt64 (Int64 env name d)"
| "resolve pf env (RegUint addr name d) = map_sum id VUint (Uint env name d)"
| "resolve pf env (RegUint64 addr name d) = map_sum id VUint64 (Uint64 env name d)"
| "resolve pf env (RegFloat64 addr name d) = map_sum id VFloat64 (Float64 pf env name d)"
| "resolve pf env (RegBool addr name d) = map_sum id VBool (Bool env name d)"
| "resolve pf env (RegDuration addr name d) = map_sum id VDuration (Duration env name d)"

text \<open>
  The assignment a registration makes when its closure runs and ends normally: to the cell of
  its destination, of its resolved value. \<open>None\<close> when the closure panics (the conversion
  fails, or the destination is nil).
\<close>

definition write_of ::
  "('f::zero) caster \<Rightarrow> env \<Rightarrow> ('w::len word, 'f) registration \<Rightarrow> (nat \<times> ('w word, 'f) val) option" where
  "write_of pf env r =
     (case (dest r, resolve pf env r) of
        (Addr a, Inr v) \<Rightarrow> Some (a, v)
      | _ \<Rightarrow> None)"

text \<open>The cells after a list of assignments, made in order.\<close>

definition replay :: "(nat \<times> 'v) list \<Rightarrow> (nat \<Rightarrow> 'v) \<Rightarrow> (nat \<Rightarrow> 'v)" where
  "replay ws c = foldl (\<lambda>c (a, v). c(a := v)) c ws"

text \<open>The assignments made between an earlier memory and a later one.\<close>

definition new_writes :: "'v memory \<Rightarrow> 'v memory \<Rightarrow> (nat \<times> 'v) list" where
  "new_writes m m' = drop (length (writes m)) (writes m')"

text \<open>
  Two auxiliary notions for the proofs: the closure that a registration appends to the queue,
  written with \<open>resolve\<close>, and the assignments made by the longest prefix of a list of
  registrations whose closures all end normally.
\<close>

definition binding ::
  "('f::zero) caster \<Rightarrow> ('w::len word, 'f) registration \<Rightarrow> ('w word, 'f) val closure" where
  "binding pf r env m =
     (case resolve pf env r of
        Inl p \<Rightarrow> (Some p, m)
      | Inr v \<Rightarrow> store (dest r) v m)"

fun executed ::
  "('f::zero) caster \<Rightarrow> env \<Rightarrow> ('w::len word, 'f) registration list \<Rightarrow> (nat \<times> ('w word, 'f) val) list" where
  "executed pf env [] = []"
| "executed pf env (r # rs) =
     (case write_of pf env r of
        None \<Rightarrow> []
      | Some w \<Rightarrow> w # executed pf env rs)"


text \<open>time.Second, in nanoseconds.\<close>

definition Second :: int64 where
  "Second = 1000000000"

section \<open>Auxiliary facts\<close>

lemma setVar_value:
  "setVar T box env addr name d cast m =
     (case value' T env name d cast of Inl p \<Rightarrow> (Some p, m) | Inr v \<Rightarrow> store addr (box v) m)"
  by (simp add: setVar_def value'_def failCast_def split: option.splits prod.splits)

lemma value'_unset: "env name = None \<Longrightarrow> value' T env name d cast = Inr d"
  by (simp add: value'_def)

lemma value'_set:
  "env name = Some s \<Longrightarrow>
   value' T env name d cast =
     (case cast s of (v, None) \<Rightarrow> Inr v | (v, Some e) \<Rightarrow> Inl (Panic (FailedToParse name T e)))"
  by (simp add: value'_def failCast_def split: option.splits prod.splits)

lemmas accessor_defs =
  String_def Int'_def Int64_def Uint_def Uint64_def Float64_def Bool_def Duration_def

lemmas registering_defs =
  StringVar_def IntVar_def Int64Var_def UintVar_def Uint64Var_def Float64Var_def
  BoolVar_def DurationVar_def

lemma register_eq: "register pf r st = st\<lparr>vars := vars st @ [binding pf r]\<rparr>"
  by (cases r)
    (auto simp: binding_def fun_eq_iff setVar_value queueSetVar_def registering_defs
      accessor_defs split: sum.splits)

lemma register_all_eq: "register_all pf rs st = st\<lparr>vars := vars st @ map (binding pf) rs\<rparr>"
  unfolding register_all_def
  by (induction rs arbitrary: st) (simp_all add: register_eq)

lemma Parse_registered:
  "Parse env (register_all pf rs (init m)) =
     Parse_loop (map (binding pf) rs) env (register_all pf rs (init m))"
  by (simp add: Parse_def register_all_eq init_def)


lemma binding_ok:
  "write_of pf env r = Some (a, v) \<Longrightarrow>
     binding pf r env m = (None, m\<lparr>cells := (cells m)(a := v), writes := writes m @ [(a, v)]\<rparr>)"
  by (auto simp: write_of_def binding_def split: ptr.splits sum.splits)

lemma binding_fail: "resolve pf env r = Inl p \<Longrightarrow> binding pf r env m = (Some p, m)"
  by (simp add: binding_def)

lemma binding_none: "write_of pf env r = None \<Longrightarrow> \<exists>p. binding pf r env m = (Some p, m)"
  by (auto simp: write_of_def binding_def split: ptr.splits sum.splits)

lemma replay_Nil: "replay [] c = c"
  by (simp add: replay_def)

lemma replay_Cons: "replay ((a, v) # ws) c = replay ws (c(a := v))"
  by (simp add: replay_def)

lemma replay_append: "replay (ws @ ws') c = replay ws' (replay ws c)"
  by (simp add: replay_def)

lemma replay_other: "a \<notin> fst ` set ws \<Longrightarrow> replay ws c a = c a"
  by (induction ws arbitrary: c) (auto simp: replay_Nil replay_Cons)

lemma replay_last:
  assumes "i < length ws" and "\<forall>j. i < j \<and> j < length ws \<longrightarrow> fst (ws ! j) \<noteq> fst (ws ! i)"
  shows "replay ws c (fst (ws ! i)) = snd (ws ! i)"
proof -
  have split: "ws = take i ws @ (ws ! i) # drop (Suc i) ws"
    using assms(1) by (simp add: id_take_nth_drop)
  have later: "fst (ws ! i) \<notin> fst ` set (drop (Suc i) ws)"
  proof
    assume "fst (ws ! i) \<in> fst ` set (drop (Suc i) ws)"
    then obtain w where w: "w \<in> set (drop (Suc i) ws)" and eq: "fst w = fst (ws ! i)" by auto
    from w obtain n where n: "n < length (drop (Suc i) ws)" and wn: "drop (Suc i) ws ! n = w"
      by (auto simp: in_set_conv_nth)
    have "ws ! (Suc i + n) = w" using n wn by simp
    moreover have "i < Suc i + n" and "Suc i + n < length ws" using n by auto
    ultimately show False using assms(2) eq by metis
  qed
  obtain a v where av: "ws ! i = (a, v)" by (cases "ws ! i")
  have "replay ws c a = replay (drop (Suc i) ws) (replay (take i ws @ [(a, v)]) c) a"
    by (subst split) (simp add: av replay_append replay_Cons replay_Nil)
  also have "\<dots> = replay (take i ws @ [(a, v)]) c a"
    using later by (simp add: replay_other av)
  also have "\<dots> = v"
    by (simp add: replay_append replay_Cons replay_Nil)
  finally show ?thesis by (simp add: av)
qed

lemma Parse_loop_executed:
  "snd (Parse_loop (map (binding pf) rs) env st) =
     st\<lparr>mem := \<lparr>cells = replay (executed pf env rs) (cells (mem st)),
                writes = writes (mem st) @ executed pf env rs\<rparr>\<rparr>"
proof (induction rs arbitrary: st)
  case Nil
  show ?case by (simp add: replay_Nil)
next
  case (Cons r rs)
  show ?case
  proof (cases "write_of pf env r")
    case None
    then obtain p where "binding pf r env (mem st) = (Some p, mem st)"
      using binding_none by blast
    with None show ?thesis by (simp add: replay_Nil)
  next
    case (Some w)
    obtain a v where av: "w = (a, v)" by (cases w)
    have step: "binding pf r env (mem st) =
        (None, \<lparr>cells = (cells (mem st))(a := v), writes = writes (mem st) @ [(a, v)]\<rparr>)"
      using binding_ok [OF Some [unfolded av], of "mem st"] by simp
    show ?thesis
      by (simp add: Some av step Cons.IH replay_Cons fun_upd_def)
  qed
qed

lemma Parse_loop_outcome:
  "fst (Parse_loop (map (binding pf) rs) env st) = None \<longleftrightarrow> (\<forall>r\<in>set rs. write_of pf env r \<noteq> None)"
proof (induction rs arbitrary: st)
  case Nil
  show ?case by simp
next
  case (Cons r rs)
  show ?case
  proof (cases "write_of pf env r")
    case None
    then obtain p where "binding pf r env (mem st) = (Some p, mem st)"
      using binding_none by blast
    with None show ?thesis by simp
  next
    case (Some w)
    obtain a v where av: "w = (a, v)" by (cases w)
    show ?thesis
      using Cons.IH binding_ok [OF Some [unfolded av]]
      by (simp add: Some av)
  qed
qed

lemma executed_all:
  "map (write_of pf env) rs = map Some ws \<Longrightarrow> executed pf env rs = ws"
  by (induction rs arbitrary: ws) auto

lemma executed_until:
  "map (write_of pf env) rs = map Some ws \<Longrightarrow> write_of pf env r = None \<Longrightarrow>
     executed pf env (rs @ r # rs') = ws"
  by (induction rs arbitrary: ws) auto

lemma executed_prefix:
  "\<exists>k\<le>length rs. map (write_of pf env) (take k rs) = map Some (executed pf env rs)"
proof (induction rs)
  case Nil
  show ?case by simp
next
  case (Cons r rs)
  show ?case
  proof (cases "write_of pf env r")
    case None
    then show ?thesis by (intro exI [of _ 0]) simp
  next
    case (Some w)
    from Cons.IH obtain k where "k \<le> length rs"
      and "map (write_of pf env) (take k rs) = map Some (executed pf env rs)" by blast
    with Some show ?thesis by (intro exI [of _ "Suc k"]) simp
  qed
qed

lemma executed_count:
  "length (filter (\<lambda>w. fst w = a) (executed pf env rs)) \<le> length (filter (\<lambda>r. dest r = Addr a) rs)"
proof (induction rs)
  case Nil
  show ?case by simp
next
  case (Cons r rs)
  show ?case
  proof (cases "write_of pf env r")
    case None
    then show ?thesis by simp
  next
    case (Some w)
    then have "fst w = a \<Longrightarrow> dest r = Addr a"
      by (auto simp: write_of_def split: ptr.splits sum.splits)
    with Some Cons.IH show ?thesis by auto
  qed
qed

lemma executed_origin:
  "w \<in> set (executed pf env rs) \<Longrightarrow> \<exists>r\<in>set rs. write_of pf env r = Some w"
  by (induction rs) (auto split: option.splits)

lemma count_distinct:
  "distinct (map f xs) \<Longrightarrow> length (filter (\<lambda>x. f x = y) xs) \<le> 1"
proof (induction xs)
  case Nil
  show ?case by simp
next
  case (Cons x xs)
  show ?case
  proof (cases "f x = y")
    case True
    with Cons.prems have "y \<notin> f ` set xs" by auto
    then have "filter (\<lambda>x. f x = y) xs = []"
      by (auto simp: filter_empty_conv)
    with True show ?thesis by simp
  next
    case False
    with Cons show ?thesis by simp
  qed
qed

lemma Parse_loop_append:
  "Parse_loop (fs @ gs) env st =
     (case Parse_loop fs env st of (Some p, st') \<Rightarrow> (Some p, st') | (None, st') \<Rightarrow> Parse_loop gs env st')"
  by (induction fs arbitrary: st) (auto split: prod.splits option.splits)

lemma Parse_all_ok:
  assumes "map (write_of pf env) rs = map Some ws"
  shows "Parse env (register_all pf rs (init m)) =
           (None, (register_all pf rs (init m))
                    \<lparr>mem := \<lparr>cells = replay ws (cells m), writes = writes m @ ws\<rparr>\<rparr>)"
proof -
  let ?st = "register_all pf rs (init m)"
  have m: "mem ?st = m" by (simp add: register_all_eq init_def)
  have "\<forall>r\<in>set rs. write_of pf env r \<noteq> None"
  proof
    fix r assume "r \<in> set rs"
    then have "write_of pf env r \<in> set (map Some ws)"
      using assms [symmetric] by simp
    then show "write_of pf env r \<noteq> None" by auto
  qed
  then have "fst (Parse_loop (map (binding pf) rs) env ?st) = None"
    by (simp add: Parse_loop_outcome)
  moreover have "snd (Parse_loop (map (binding pf) rs) env ?st) =
      ?st\<lparr>mem := \<lparr>cells = replay ws (cells m), writes = writes m @ ws\<rparr>\<rparr>"
    by (simp only: Parse_loop_executed executed_all [OF assms] m)
  ultimately show ?thesis
    by (simp only: Parse_registered prod_eq_iff fst_conv snd_conv simp_thms)
qed

lemma Parse_first_failure:
  assumes "map (write_of pf env) (take k rs) = map Some ws"
    and "k < length rs"
    and "resolve pf env (rs ! k) = Inl p"
  shows "Parse env (register_all pf rs (init m)) =
           (Some p, (register_all pf rs (init m))
                      \<lparr>mem := \<lparr>cells = replay ws (cells m), writes = writes m @ ws\<rparr>\<rparr>)"
proof -
  let ?st = "register_all pf rs (init m)"
  let ?mid = "?st\<lparr>mem := \<lparr>cells = replay ws (cells m), writes = writes m @ ws\<rparr>\<rparr>"
  have m: "mem ?st = m" by (simp add: register_all_eq init_def)
  have rs: "rs = take k rs @ (rs ! k) # drop (Suc k) rs"
    using assms(2) by (simp add: id_take_nth_drop)
  have "\<forall>r\<in>set (take k rs). write_of pf env r \<noteq> None"
  proof
    fix r assume "r \<in> set (take k rs)"
    then have "write_of pf env r \<in> set (map Some ws)"
      using assms(1) [symmetric] by simp
    then show "write_of pf env r \<noteq> None" by auto
  qed
  then have "fst (Parse_loop (map (binding pf) (take k rs)) env ?st) = None"
    by (simp add: Parse_loop_outcome)
  moreover have "snd (Parse_loop (map (binding pf) (take k rs)) env ?st) = ?mid"
    by (simp only: Parse_loop_executed executed_all [OF assms(1)] m)
  ultimately have before: "Parse_loop (map (binding pf) (take k rs)) env ?st = (None, ?mid)"
    by (simp only: prod_eq_iff fst_conv snd_conv simp_thms)
  have "Parse_loop (map (binding pf) (take k rs @ (rs ! k) # drop (Suc k) rs)) env ?st = (Some p, ?mid)"
    by (simp add: Parse_loop_append before binding_fail [OF assms(3)])
  then show ?thesis
    using rs by (simp only: Parse_registered)
qed

lemma resolve_unset:
  "env (var_name r) = None \<Longrightarrow> resolve pf env r = Inr (default_val r)"
  by (cases r) (simp_all add: accessor_defs value'_unset)

lemma resolve_reject:
  "env (var_name r) = Some v \<Longrightarrow> convert_error pf r v = Some e \<Longrightarrow>
     resolve pf env r = Inl (Panic (FailedToParse (var_name r) (type_name r) e))"
  by (cases r) (auto simp: accessor_defs value'_set split: prod.splits option.splits)

lemma register_single: "register pf r st = register_all pf [r] st"
  by (simp add: register_all_def)

lemma map_sum_id_Inl: "map_sum id f x = Inl p \<longleftrightarrow> x = Inl p"
  by (cases x) auto

lemma map_sum_id_Inr: "map_sum id f x = Inr (f v) \<longleftrightarrow> (\<exists>u. x = Inr u \<and> f u = f v)"
  by (cases x) auto

lemma queueSetVar_mem: "mem (queueSetVar T box addr name d cast st) = mem st"
  by (simp add: queueSetVar_def)

lemma Parse_mem:
  "mem (snd (Parse env (register_all pf rs (init m)))) =
     \<lparr>cells = replay (executed pf env rs) (cells m), writes = writes m @ executed pf env rs\<rparr>"
proof -
  have "mem (register_all pf rs (init m)) = m"
    by (simp add: register_all_eq init_def)
  then show ?thesis
    by (simp add: Parse_registered Parse_loop_executed)
qed

lemma Parse_new_writes:
  "new_writes m (mem (snd (Parse env (register_all pf rs (init m))))) = executed pf env rs"
  by (simp add: Parse_mem new_writes_def)

lemma castInt64_eq:
  "castInt64 s = (case ParseInt s 64 of (i, None) \<Rightarrow> (i, None) | (i, Some e) \<Rightarrow> (0, Some e))"
  by (simp add: castInt64_def split: prod.splits option.splits)

lemma castDuration_eq:
  "castDuration s = (case ParseInt s 64 of (i, None) \<Rightarrow> (i, None) | (i, Some e) \<Rightarrow> (0, Some e))"
  by (simp add: castDuration_def castInt64_eq split: prod.splits option.splits)

lemma castUint64_eq:
  "castUint64 s = (case ParseUint s 64 of (i, None) \<Rightarrow> (i, None) | (i, Some e) \<Rightarrow> (0, Some e))"
  by (simp add: castUint64_def split: prod.splits option.splits)

lemma castUint_eq:
  "castUint s =
     (case ParseUint s 64 of (i, None) \<Rightarrow> (ucast i, None) | (i, Some e) \<Rightarrow> (0, Some e))"
  by (simp add: castUint_def castUint64_eq split: prod.splits option.splits)






section \<open>The properties\<close>

text \<open>
  C1. Let the variable \<open>name\<close> be absent from the environment. Then each of the eight
  immediate accessors (String, Int, Int64, Uint, Uint64, Float64, Bool, Duration) returns the
  default it was given, unchanged; and for a registration of any of the eight types for that
  name, with a cell \<open>a\<close> as destination, Parse on the queue holding that registration ends
  normally after one assignment, of the default given at registration, to the cell \<open>a\<close>.
\<close>

theorem unset_variable_gives_default:
  fixes pf :: "('f::zero) caster" and di du :: "'w::len word"
  assumes "env name = None"
  shows "String env name ds = Inr ds \<and>
         Int' env name di = Inr di \<and>
         Int64 env name dl = Inr dl \<and>
         Uint env name du = Inr du \<and>
         Uint64 env name dul = Inr dul \<and>
         Float64 pf env name df = Inr df \<and>
         Bool env name db = Inr db \<and>
         Duration env name dd = Inr dd \<and>
         (\<forall>(r :: ('w word, 'f) registration) a m.
            var_name r = name \<and> dest r = Addr a \<longrightarrow>
            Parse env (register pf r (init m)) =
              (None, (register pf r (init m))
                       \<lparr>mem := \<lparr>cells = (cells m)(a := default_val r),
                                  writes = writes m @ [(a, default_val r)]\<rparr>\<rparr>))"
proof -
  have deferred: "Parse env (register pf r (init m)) =
      (None, (register pf r (init m))
               \<lparr>mem := \<lparr>cells = (cells m)(a := default_val r),
                          writes = writes m @ [(a, default_val r)]\<rparr>\<rparr>)"
    if "var_name r = name" and "dest r = Addr a"
    for r :: "('w word, 'f) registration" and a m
  proof -
    have "resolve pf env r = Inr (default_val r)"
      using that(1) assms by (simp add: resolve_unset)
    then have "map (write_of pf env) [r] = map Some [(a, default_val r)]"
      using that(2) by (simp add: write_of_def)
    from Parse_all_ok [OF this, of m] show ?thesis
      by (simp add: register_single replay_Cons replay_Nil)
  qed
  show ?thesis
    using assms deferred by (simp add: accessor_defs value'_unset)
qed

theorem unset_variable_gives_default_witness:
  "String [''FOO'' \<mapsto> ''10''] ''BAR'' ''fallback'' = Inr ''fallback'' \<and>
   Int' [''FOO'' \<mapsto> ''10''] ''BAR'' (2 :: 64 word) = Inr 2 \<and>
   Bool [''FOO'' \<mapsto> ''10''] ''BAR'' True = Inr True \<and>
   Duration [''FOO'' \<mapsto> ''10''] ''BAR'' (5 * Second) = Inr (5 * Second) \<and>
   Parse [''FOO'' \<mapsto> ''10'']
     (register (\<lambda>s. (0 :: int, Some (syntaxError ''ParseFloat'' s)))
        (RegInt (Addr 1) ''BAR'' (2 :: 64 word))
        (init \<lparr>cells = (\<lambda>a. VInt 0), writes = []\<rparr>)) =
     (None,
      (register (\<lambda>s. (0 :: int, Some (syntaxError ''ParseFloat'' s)))
         (RegInt (Addr 1) ''BAR'' (2 :: 64 word))
         (init \<lparr>cells = (\<lambda>a. VInt 0), writes = []\<rparr>))
      \<lparr>mem := \<lparr>cells = (\<lambda>a. VInt 0)(1 := VInt 2), writes = [(1, VInt 2)]\<rparr>\<rparr>)"
proof -
  have unset: "[''FOO'' \<mapsto> ''10''] ''BAR'' = None" by simp
  note inst = unset_variable_gives_default [
      where env = "[''FOO'' \<mapsto> ''10'']" and name = "''BAR''"
        and pf = "\<lambda>s. (0 :: int, Some (syntaxError ''ParseFloat'' s))"
        and ds = "''fallback''" and di = "2 :: 64 word" and db = True and dd = "5 * Second",
      OF unset]
  from inst have "\<forall>(r :: (64 word, int) registration) a m.
            var_name r = ''BAR'' \<and> dest r = Addr a \<longrightarrow>
            Parse [''FOO'' \<mapsto> ''10''] (register (\<lambda>s. (0 :: int, Some (syntaxError ''ParseFloat'' s))) r (init m)) =
              (None, (register (\<lambda>s. (0 :: int, Some (syntaxError ''ParseFloat'' s))) r (init m))
                       \<lparr>mem := \<lparr>cells = (cells m)(a := default_val r),
                                  writes = writes m @ [(a, default_val r)]\<rparr>\<rparr>)"
    by blast
  from this [rule_format, of "RegInt (Addr 1) ''BAR'' 2" 1 "\<lparr>cells = (\<lambda>a. VInt 0), writes = []\<rparr>"]
  have "Parse [''FOO'' \<mapsto> ''10'']
     (register (\<lambda>s. (0 :: int, Some (syntaxError ''ParseFloat'' s)))
        (RegInt (Addr 1) ''BAR'' (2 :: 64 word))
        (init \<lparr>cells = (\<lambda>a. VInt 0), writes = []\<rparr>)) =
     (None,
      (register (\<lambda>s. (0 :: int, Some (syntaxError ''ParseFloat'' s)))
         (RegInt (Addr 1) ''BAR'' (2 :: 64 word))
         (init \<lparr>cells = (\<lambda>a. VInt 0), writes = []\<rparr>))
      \<lparr>mem := \<lparr>cells = (\<lambda>a. VInt 0)(1 := VInt 2), writes = [(1, VInt 2)]\<rparr>\<rparr>)"
    by simp
  with inst show ?thesis by blast
qed




text \<open>
  C3. Let the variable of a registration \<open>r\<close> of any of the eight types be present with a
  value \<open>v\<close> that the converter of the type rejects with the error \<open>e\<close>. Then the immediate
  accessor of that type does not return: it panics (\<open>resolve\<close> is the accessor's result), and
  so does Parse on the queue holding \<open>r\<close>, leaving the memory as it was. The panic carries
  the error whose message is \<open>failed to parse\<close>, the variable name, \<open>as\<close>, the name of the Go
  type, a colon and the message of \<open>e\<close>.
\<close>

theorem rejected_value_panics:
  fixes pf :: "('f::zero) caster" and r :: "('w::len word, 'f) registration"
  assumes "env (var_name r) = Some v" and "convert_error pf r v = Some e"
  shows "resolve pf env r = Inl (Panic (FailedToParse (var_name r) (type_name r) e)) \<and>
         Error quote (FailedToParse (var_name r) (type_name r) e) =
           ''failed to parse '' @ var_name r @ '' as '' @ type_name r @ '': '' @ Error quote e \<and>
         Parse env (register pf r (init m)) =
           (Some (Panic (FailedToParse (var_name r) (type_name r) e)), register pf r (init m))"
proof -
  have res: "resolve pf env r = Inl (Panic (FailedToParse (var_name r) (type_name r) e))"
    using assms by (rule resolve_reject)
  have "Parse env (register_all pf [r] (init m)) =
      (Some (Panic (FailedToParse (var_name r) (type_name r) e)),
       (register_all pf [r] (init m))\<lparr>mem := \<lparr>cells = replay [] (cells m), writes = writes m @ []\<rparr>\<rparr>)"
    by (rule Parse_first_failure [where k = 0]) (simp_all add: res)
  moreover have "(register_all pf [r] (init m))\<lparr>mem := \<lparr>cells = replay [] (cells m), writes = writes m @ []\<rparr>\<rparr>
      = register_all pf [r] (init m)"
    by (simp add: register_all_eq init_def replay_Nil)
  ultimately show ?thesis
    using res by (simp add: register_single)
qed

theorem rejected_value_panics_witness:
  "Int64 [''BAR'' \<mapsto> ''abc''] ''BAR'' 7 =
     Inl (Panic (FailedToParse ''BAR'' ''int64'' (NumError ''ParseInt'' ''abc'' ErrSyntax))) \<and>
   Error (\<lambda>s. [CHR 0x22] @ s @ [CHR 0x22])
       (FailedToParse ''BAR'' ''int64'' (NumError ''ParseInt'' ''abc'' ErrSyntax)) =
     ''failed to parse BAR as int64: strconv.ParseInt: parsing '' @ [CHR 0x22] @ ''abc'' @ [CHR 0x22]
       @ '': invalid syntax'' \<and>
   Parse [''BAR'' \<mapsto> ''abc'']
     (register (\<lambda>s. (0 :: int, Some (syntaxError ''ParseFloat'' s)))
        (RegInt64 (Addr 0) ''BAR'' 7 :: (64 word, int) registration)
        (init \<lparr>cells = (\<lambda>a. VInt 0), writes = []\<rparr>)) =
     (Some (Panic (FailedToParse ''BAR'' ''int64'' (NumError ''ParseInt'' ''abc'' ErrSyntax))),
      register (\<lambda>s. (0 :: int, Some (syntaxError ''ParseFloat'' s)))
        (RegInt64 (Addr 0) ''BAR'' 7)
        (init \<lparr>cells = (\<lambda>a. VInt 0), writes = []\<rparr>))"
proof -
  have present: "[''BAR'' \<mapsto> ''abc''] (var_name (RegInt64 (Addr 0) ''BAR'' 7 :: (64 word, int) registration)) = Some ''abc''"
    by simp
  have rejected: "convert_error (\<lambda>s. (0 :: int, Some (syntaxError ''ParseFloat'' s)))
      (RegInt64 (Addr 0) ''BAR'' 7 :: (64 word, int) registration) ''abc'' =
      Some (NumError ''ParseInt'' ''abc'' ErrSyntax)"
    by (simp add: castInt64_def ParseInt_def ParseUint_def lower_def syntaxError_def
        ErrSyntax_def ErrRange_def)
  from rejected_value_panics [
      where env = "[''BAR'' \<mapsto> ''abc'']" and v = "''abc''"
        and r = "RegInt64 (Addr 0) ''BAR'' 7 :: (64 word, int) registration"
        and quote = "\<lambda>s. [CHR 0x22] @ s @ [CHR 0x22]"
        and m = "\<lparr>cells = (\<lambda>a. VInt 0), writes = []\<rparr>",
      OF present rejected]
  show ?thesis
    by (simp add: ErrSyntax_def map_sum_id_Inl)
qed

text \<open>
  C4, as amended. Let the registrations before position \<open>k\<close> all run normally, the \<open>i\<close>-th
  assigning \<open>ws ! i\<close>, and let the conversion of the one at position \<open>k\<close> fail with the panic
  \<open>p\<close>. Then Parse ends at once in the panic \<open>p\<close>. The assignments made are exactly those of
  the registrations before \<open>k\<close>, in order, and none is undone: a cell holds the value resolved
  by the last registration before \<open>k\<close> that has it as destination (its own resolved value
  when no later one before \<open>k\<close> shares the cell), and a cell that no registration before \<open>k\<close>
  has as destination is as it was. The registrations from \<open>k\<close> on assign nothing.
\<close>

theorem first_failure_stops_Parse:
  fixes pf :: "('f::zero) caster" and rs :: "('w::len word, 'f) registration list"
  assumes "k < length rs"
    and "map (write_of pf env) (take k rs) = map Some ws"
    and "resolve pf env (rs ! k) = Inl p"
  shows "Parse env (register_all pf rs (init m)) =
           (Some p, (register_all pf rs (init m))
                      \<lparr>mem := \<lparr>cells = replay ws (cells m), writes = writes m @ ws\<rparr>\<rparr>) \<and>
         length ws = k \<and>
         (\<forall>i<k. (\<forall>j. i < j \<and> j < k \<longrightarrow> fst (ws ! j) \<noteq> fst (ws ! i)) \<longrightarrow>
                 replay ws (cells m) (fst (ws ! i)) = snd (ws ! i)) \<and>
         (\<forall>a. a \<notin> fst ` set ws \<longrightarrow> replay ws (cells m) a = cells m a)"
proof -
  have len: "length ws = k"
  proof -
    have "length (map Some ws) = length (map (write_of pf env) (take k rs))"
      using assms(2) by simp
    then show ?thesis using assms(1) by simp
  qed
  have last: "replay ws (cells m) (fst (ws ! i)) = snd (ws ! i)"
    if "i < k" and "\<forall>j. i < j \<and> j < k \<longrightarrow> fst (ws ! j) \<noteq> fst (ws ! i)" for i
    using that len by (intro replay_last) simp_all
  show ?thesis
    using Parse_first_failure [OF assms(2) assms(1) assms(3), of m] len last
    by (simp add: replay_other)
qed

theorem first_failure_stops_Parse_witness:
  "Parse [''FOO'' \<mapsto> ''10'', ''BAR'' \<mapsto> ''abc'']
     (register_all (\<lambda>s. (0 :: int, Some (syntaxError ''ParseFloat'' s)))
        [RegInt (Addr 0) ''FOO'' (1 :: 64 word), RegInt (Addr 1) ''BAR'' 2, RegBool (Addr 2) ''BAZ'' True]
        (init \<lparr>cells = (\<lambda>a. VInt 0), writes = []\<rparr>)) =
     (Some (Panic (FailedToParse ''BAR'' ''int'' (NumError ''Atoi'' ''abc'' ErrSyntax))),
      (register_all (\<lambda>s. (0 :: int, Some (syntaxError ''ParseFloat'' s)))
        [RegInt (Addr 0) ''FOO'' (1 :: 64 word), RegInt (Addr 1) ''BAR'' 2, RegBool (Addr 2) ''BAZ'' True]
        (init \<lparr>cells = (\<lambda>a. VInt 0), writes = []\<rparr>))
      \<lparr>mem := \<lparr>cells = (\<lambda>a. VInt 0)(0 := VInt 10), writes = [(0, VInt 10)]\<rparr>\<rparr>)"
proof -
  have ten: "(Atoi ''10'' :: 64 word \<times> error option) = (10, None)"
    by (simp add: Atoi_def)
  have abc: "(Atoi ''abc'' :: 64 word \<times> error option) = (0, Some (NumError ''Atoi'' ''abc'' ErrSyntax))"
    by (simp add: Atoi_def syntaxError_def)
  have k: "(1 :: nat) < length [RegInt (Addr 0) ''FOO'' (1 :: 64 word), RegInt (Addr 1) ''BAR'' 2,
      RegBool (Addr 2) ''BAZ'' True :: (64 word, int) registration]"
    by simp
  have before: "map (write_of (\<lambda>s. (0 :: int, Some (syntaxError ''ParseFloat'' s)))
        [''FOO'' \<mapsto> ''10'', ''BAR'' \<mapsto> ''abc''])
      (take 1 [RegInt (Addr 0) ''FOO'' (1 :: 64 word), RegInt (Addr 1) ''BAR'' 2, RegBool (Addr 2) ''BAZ'' True])
      = map Some [(0, VInt 10)]"
    by (simp add: write_of_def Int'_def value'_def ten)
  have fails: "resolve (\<lambda>s. (0 :: int, Some (syntaxError ''ParseFloat'' s)))
        [''FOO'' \<mapsto> ''10'', ''BAR'' \<mapsto> ''abc'']
        ([RegInt (Addr 0) ''FOO'' (1 :: 64 word), RegInt (Addr 1) ''BAR'' 2, RegBool (Addr 2) ''BAZ'' True] ! 1)
      = Inl (Panic (FailedToParse ''BAR'' ''int'' (NumError ''Atoi'' ''abc'' ErrSyntax)))"
    by (simp add: Int'_def value'_def failCast_def abc)
  from first_failure_stops_Parse [OF k before fails, of "\<lparr>cells = (\<lambda>a. VInt 0), writes = []\<rparr>"]
  show ?thesis
    by (simp add: replay_def)
qed

text \<open>
  C4 as it is stated fails when registrations share a destination. Four registrations of
  int64: cell 0 for FOO, cell 0 for BAZ, cell 1 for BAR, cell 0 for QUX; FOO is 10, BAZ is 20,
  BAR is \<open>abc\<close>. Parse panics at the third. The first registration was run and resolved to
  10, but its destination holds 20; and the destination of the fourth, which was not run, is
  no longer what it was.
\<close>

theorem earlier_destination_overwritten_counterexample:
  "fst (Parse [''FOO'' \<mapsto> ''10'', ''BAZ'' \<mapsto> ''20'', ''BAR'' \<mapsto> ''abc'']
     (register_all (\<lambda>s. (0 :: int, Some (syntaxError ''ParseFloat'' s)))
        [RegInt64 (Addr 0) ''FOO'' 1, RegInt64 (Addr 0) ''BAZ'' 2, RegInt64 (Addr 1) ''BAR'' 3,
         RegInt64 (Addr 0) ''QUX'' 4 :: (64 word, int) registration]
        (init \<lparr>cells = (\<lambda>a. VInt64 0), writes = []\<rparr>))) =
     Some (Panic (FailedToParse ''BAR'' ''int64'' (NumError ''ParseInt'' ''abc'' ErrSyntax))) \<and>
   \<not> (\<forall>i<2. \<forall>a v.
        dest ([RegInt64 (Addr 0) ''FOO'' 1, RegInt64 (Addr 0) ''BAZ'' 2, RegInt64 (Addr 1) ''BAR'' 3,
               RegInt64 (Addr 0) ''QUX'' 4 :: (64 word, int) registration] ! i) = Addr a \<and>
        resolve (\<lambda>s. (0 :: int, Some (syntaxError ''ParseFloat'' s)))
          [''FOO'' \<mapsto> ''10'', ''BAZ'' \<mapsto> ''20'', ''BAR'' \<mapsto> ''abc'']
          ([RegInt64 (Addr 0) ''FOO'' 1, RegInt64 (Addr 0) ''BAZ'' 2, RegInt64 (Addr 1) ''BAR'' 3,
            RegInt64 (Addr 0) ''QUX'' 4 :: (64 word, int) registration] ! i) = Inr v \<longrightarrow>
        cells (mem (snd (Parse [''FOO'' \<mapsto> ''10'', ''BAZ'' \<mapsto> ''20'', ''BAR'' \<mapsto> ''abc'']
          (register_all (\<lambda>s. (0 :: int, Some (syntaxError ''ParseFloat'' s)))
             [RegInt64 (Addr 0) ''FOO'' 1, RegInt64 (Addr 0) ''BAZ'' 2, RegInt64 (Addr 1) ''BAR'' 3,
              RegInt64 (Addr 0) ''QUX'' 4 :: (64 word, int) registration]
             (init \<lparr>cells = (\<lambda>a. VInt64 0), writes = []\<rparr>))))) a = v) \<and>
   \<not> (\<forall>j a. 2 < j \<and> j < 4 \<and>
        dest ([RegInt64 (Addr 0) ''FOO'' 1, RegInt64 (Addr 0) ''BAZ'' 2, RegInt64 (Addr 1) ''BAR'' 3,
               RegInt64 (Addr 0) ''QUX'' 4 :: (64 word, int) registration] ! j) = Addr a \<longrightarrow>
        cells (mem (snd (Parse [''FOO'' \<mapsto> ''10'', ''BAZ'' \<mapsto> ''20'', ''BAR'' \<mapsto> ''abc'']
          (register_all (\<lambda>s. (0 :: int, Some (syntaxError ''ParseFloat'' s)))
             [RegInt64 (Addr 0) ''FOO'' 1, RegInt64 (Addr 0) ''BAZ'' 2, RegInt64 (Addr 1) ''BAR'' 3,
              RegInt64 (Addr 0) ''QUX'' 4 :: (64 word, int) registration]
             (init \<lparr>cells = (\<lambda>a. VInt64 0), writes = []\<rparr>))))) a =
        cells \<lparr>cells = (\<lambda>a. VInt64 0), writes = []\<rparr> a)"
proof -
  let ?pf = "\<lambda>s. (0 :: int, Some (syntaxError ''ParseFloat'' s))"
  let ?env = "[''FOO'' \<mapsto> ''10'', ''BAZ'' \<mapsto> ''20'', ''BAR'' \<mapsto> ''abc'']"
  let ?rs = "[RegInt64 (Addr 0) ''FOO'' 1, RegInt64 (Addr 0) ''BAZ'' 2, RegInt64 (Addr 1) ''BAR'' 3,
              RegInt64 (Addr 0) ''QUX'' 4 :: (64 word, int) registration]"
  let ?m = "\<lparr>cells = (\<lambda>a. VInt64 0), writes = []\<rparr> :: (64 word, int) val memory"
  have ten: "castInt64 ''10'' = (10, None)"
    by code_simp
  have twenty: "castInt64 ''20'' = (20, None)"
    by code_simp
  have abc: "castInt64 ''abc'' = (0, Some (NumError ''ParseInt'' ''abc'' ErrSyntax))"
    by code_simp
  have k: "(2 :: nat) < length ?rs" by simp
  have before: "map (write_of ?pf ?env) (take 2 ?rs) = map Some [(0, VInt64 10), (0, VInt64 20)]"
    by (simp add: write_of_def Int64_def value'_def ten twenty numeral_2_eq_2)
  have fails: "resolve ?pf ?env (?rs ! 2) =
      Inl (Panic (FailedToParse ''BAR'' ''int64'' (NumError ''ParseInt'' ''abc'' ErrSyntax)))"
    by (simp add: Int64_def value'_def failCast_def abc numeral_2_eq_2)
  have run: "Parse ?env (register_all ?pf ?rs (init ?m)) =
      (Some (Panic (FailedToParse ''BAR'' ''int64'' (NumError ''ParseInt'' ''abc'' ErrSyntax))),
       (register_all ?pf ?rs (init ?m))
         \<lparr>mem := \<lparr>cells = replay [(0, VInt64 10), (0, VInt64 20)] (cells ?m),
                    writes = writes ?m @ [(0, VInt64 10), (0, VInt64 20)]\<rparr>\<rparr>)"
    by (rule Parse_first_failure [OF before k fails])
  have cell: "cells (mem (snd (Parse ?env (register_all ?pf ?rs (init ?m))))) 0 = VInt64 20"
    by (simp only: run snd_conv) (simp add: replay_def)
  have first: "dest (?rs ! 0) = Addr 0 \<and> resolve ?pf ?env (?rs ! 0) = Inr (VInt64 10)"
    by (simp add: Int64_def value'_def ten)
  have later: "dest (?rs ! 3) = Addr 0"
    by (simp add: numeral_3_eq_3)
  have one: "\<not> (\<forall>i<2. \<forall>a v. dest (?rs ! i) = Addr a \<and> resolve ?pf ?env (?rs ! i) = Inr v \<longrightarrow>
        cells (mem (snd (Parse ?env (register_all ?pf ?rs (init ?m))))) a = v)"
  proof
    assume "\<forall>i<2. \<forall>a v. dest (?rs ! i) = Addr a \<and> resolve ?pf ?env (?rs ! i) = Inr v \<longrightarrow>
        cells (mem (snd (Parse ?env (register_all ?pf ?rs (init ?m))))) a = v"
    then have "dest (?rs ! 0) = Addr 0 \<and> resolve ?pf ?env (?rs ! 0) = Inr (VInt64 10) \<longrightarrow>
        cells (mem (snd (Parse ?env (register_all ?pf ?rs (init ?m))))) 0 = VInt64 10"
      by (metis zero_less_numeral)
    with first cell show False by simp
  qed
  have two: "\<not> (\<forall>j a. 2 < j \<and> j < 4 \<and> dest (?rs ! j) = Addr a \<longrightarrow>
        cells (mem (snd (Parse ?env (register_all ?pf ?rs (init ?m))))) a = cells ?m a)"
  proof
    assume "\<forall>j a. 2 < j \<and> j < 4 \<and> dest (?rs ! j) = Addr a \<longrightarrow>
        cells (mem (snd (Parse ?env (register_all ?pf ?rs (init ?m))))) a = cells ?m a"
    then have "(2 :: nat) < 3 \<and> (3 :: nat) < 4 \<and> dest (?rs ! 3) = Addr 0 \<longrightarrow>
        cells (mem (snd (Parse ?env (register_all ?pf ?rs (init ?m))))) 0 = cells ?m 0"
      by blast
    with later cell show False by simp
  qed
  have "fst (Parse ?env (register_all ?pf ?rs (init ?m))) =
      Some (Panic (FailedToParse ''BAR'' ''int64'' (NumError ''ParseInt'' ''abc'' ErrSyntax)))"
    by (simp only: run fst_conv)
  with one two show ?thesis by blast
qed

text \<open>
  C5. A call of any of the eight registering functions returns a state (it cannot panic and
  takes no environment) whose memory, cells and history of assignments alike, is the memory
  before the call: nothing is assigned through the destination. The same holds after any
  sequence of such calls, which only appends one closure per call to the queue.
\<close>

theorem registration_leaves_memory:
  fixes pf :: "('f::zero) caster" and st :: "('w::len word, 'f) val state"
  shows "mem (StringVar addr name ds st) = mem st \<and>
         mem (IntVar addr name di st) = mem st \<and>
         mem (Int64Var addr name dl st) = mem st \<and>
         mem (UintVar addr name du st) = mem st \<and>
         mem (Uint64Var addr name dul st) = mem st \<and>
         mem (Float64Var pf addr name df st) = mem st \<and>
         mem (BoolVar addr name db st) = mem st \<and>
         mem (DurationVar addr name dd st) = mem st \<and>
         mem (register_all pf rs st) = mem st \<and>
         length (vars (register_all pf rs st)) = length (vars st) + length rs \<and>
         take (length (vars st)) (vars (register_all pf rs st)) = vars st"
  by (simp add: registering_defs queueSetVar_mem register_all_eq)

theorem registration_leaves_memory_witness:
  "mem (StringVar (Addr 0) ''FOO'' ''x''
          (init \<lparr>cells = (\<lambda>a. VInt (0 :: 64 word)), writes = []\<rparr> :: (64 word, int) val state)) =
     \<lparr>cells = (\<lambda>a. VInt 0), writes = []\<rparr> \<and>
   mem (register_all (\<lambda>s. (0 :: int, Some (syntaxError ''ParseFloat'' s)))
          [RegInt (Addr 0) ''FOO'' (1 :: 64 word), RegBool nil ''B'' True, RegFloat64 (Addr 0) ''F'' 3]
          (init \<lparr>cells = (\<lambda>a. VInt 0), writes = []\<rparr>)) =
     \<lparr>cells = (\<lambda>a. VInt 0), writes = []\<rparr> \<and>
   length (vars (register_all (\<lambda>s. (0 :: int, Some (syntaxError ''ParseFloat'' s)))
          [RegInt (Addr 0) ''FOO'' (1 :: 64 word), RegBool nil ''B'' True, RegFloat64 (Addr 0) ''F'' 3]
          (init \<lparr>cells = (\<lambda>a. VInt 0), writes = []\<rparr>))) = 3"
  using registration_leaves_memory [
      where pf = "\<lambda>s. (0 :: int, Some (syntaxError ''ParseFloat'' s))"
        and st = "init \<lparr>cells = (\<lambda>a. VInt (0 :: 64 word)), writes = []\<rparr>"
        and addr = "Addr 0" and name = "''FOO''" and ds = "''x''"
        and rs = "[RegInt (Addr 0) ''FOO'' (1 :: 64 word), RegBool nil ''B'' True, RegFloat64 (Addr 0) ''F'' 3]"]
  by (simp add: init_def)

text \<open>
  C6. Let the variable \<open>name\<close> be present with the empty string as value. Then String returns
  the empty string, whatever the default, and Parse on the queue holding a StringVar
  registration for \<open>name\<close> with the cell \<open>a\<close> as destination assigns the empty string to \<open>a\<close>.
\<close>

theorem empty_text_is_not_the_default:
  fixes m :: "('w::len word, 'f::zero) val memory"
  assumes "env name = Some []"
  shows "String env name d = Inr [] \<and>
         Parse env (StringVar (Addr a) name d (init m)) =
           (None, (StringVar (Addr a) name d (init m))
                    \<lparr>mem := \<lparr>cells = (cells m)(a := VString []),
                               writes = writes m @ [(a, VString [])]\<rparr>\<rparr>)"
proof -
  have now: "String env name d = Inr []"
    using assms by (simp add: String_def value'_set castString_def)
  then have "map (write_of (\<lambda>s. (0 :: 'f, None)) env)
        [RegString (Addr a) name d :: ('w word, 'f) registration] = map Some [(a, VString [])]"
    by (simp add: write_of_def)
  from Parse_all_ok [OF this, where m = m] show ?thesis
    using now by (simp add: register_all_def replay_Cons replay_Nil)
qed

theorem empty_text_is_not_the_default_witness:
  "String [''GREETING'' \<mapsto> ''''] ''GREETING'' ''hello'' = Inr '''' \<and>
   Parse [''GREETING'' \<mapsto> '''']
     (StringVar (Addr 3) ''GREETING'' ''hello''
        (init \<lparr>cells = (\<lambda>a. VString ''old''), writes = []\<rparr> :: (64 word, int) val state)) =
     (None,
      (StringVar (Addr 3) ''GREETING'' ''hello'' (init \<lparr>cells = (\<lambda>a. VString ''old''), writes = []\<rparr>))
      \<lparr>mem := \<lparr>cells = (\<lambda>a. VString ''old'')(3 := VString ''''), writes = [(3, VString '''')]\<rparr>\<rparr>)"
proof -
  have present: "[''GREETING'' \<mapsto> ''''] ''GREETING'' = Some []" by simp
  from empty_text_is_not_the_default [
      where env = "[''GREETING'' \<mapsto> '''']" and name = "''GREETING''" and d = "''hello''"
        and a = 3 and m = "\<lparr>cells = (\<lambda>a. VString ''old''), writes = []\<rparr> :: (64 word, int) val memory",
      OF present]
  show ?thesis by simp
qed

text \<open>
  C7, as amended. During one Parse over the registrations \<open>rs\<close>, the history of assignments
  only grows, and the assignments added are, in order, those of the registrations of a prefix
  of \<open>rs\<close>: one per registration run normally, made to its destination and of its resolved
  value, hence after the resolution has succeeded. So a cell is assigned at most as many times
  as there are registrations with that cell as destination, and at most once when no two
  registrations share a destination. A registration whose conversion fails makes Parse panic
  with the memory unchanged: nothing is assigned, not even provisionally.
\<close>

theorem each_binding_assigns_at_most_once:
  fixes pf :: "('f::zero) caster" and rs :: "('w::len word, 'f) registration list"
  shows "writes (mem (snd (Parse env (register_all pf rs (init m))))) =
           writes m @ new_writes m (mem (snd (Parse env (register_all pf rs (init m))))) \<and>
         (\<exists>k\<le>length rs.
            map (write_of pf env) (take k rs) =
              map Some (new_writes m (mem (snd (Parse env (register_all pf rs (init m))))))) \<and>
         (\<forall>a. length (filter (\<lambda>w. fst w = a)
                   (new_writes m (mem (snd (Parse env (register_all pf rs (init m)))))))
                 \<le> length (filter (\<lambda>r. dest r = Addr a) rs)) \<and>
         (distinct (map dest rs) \<longrightarrow>
            (\<forall>a. length (filter (\<lambda>w. fst w = a)
                      (new_writes m (mem (snd (Parse env (register_all pf rs (init m)))))))
                    \<le> 1)) \<and>
         (\<forall>r p. resolve pf env r = Inl p \<longrightarrow>
            Parse env (register pf r (init m)) = (Some p, register pf r (init m)))"
proof -
  let ?nw = "new_writes m (mem (snd (Parse env (register_all pf rs (init m)))))"
  have nw: "?nw = executed pf env rs"
    by (rule Parse_new_writes)
  have grow: "writes (mem (snd (Parse env (register_all pf rs (init m))))) = writes m @ ?nw"
    by (simp only: nw) (simp add: Parse_mem)
  have prefix: "\<exists>k\<le>length rs. map (write_of pf env) (take k rs) = map Some ?nw"
    unfolding nw by (rule executed_prefix)
  have count: "length (filter (\<lambda>w. fst w = a) ?nw) \<le> length (filter (\<lambda>r. dest r = Addr a) rs)" for a
    unfolding nw by (rule executed_count)
  have once: "length (filter (\<lambda>w. fst w = a) ?nw) \<le> 1" if "distinct (map dest rs)" for a
    using count [of a] count_distinct [OF that, of "Addr a"] by simp
  have fail: "Parse env (register pf r (init m)) = (Some p, register pf r (init m))"
    if "resolve pf env r = Inl p" for r p
  proof -
    have "Parse env (register_all pf [r] (init m)) =
        (Some p, (register_all pf [r] (init m))
                   \<lparr>mem := \<lparr>cells = replay [] (cells m), writes = writes m @ []\<rparr>\<rparr>)"
      by (rule Parse_first_failure [where k = 0]) (simp_all add: that)
    moreover have "(register_all pf [r] (init m))
          \<lparr>mem := \<lparr>cells = replay [] (cells m), writes = writes m @ []\<rparr>\<rparr> =
        register_all pf [r] (init m)"
      by (simp add: register_all_eq init_def replay_Nil)
    ultimately show ?thesis by (simp add: register_single)
  qed
  show ?thesis
    using grow prefix count once fail by blast
qed

theorem each_binding_assigns_at_most_once_witness:
  "(\<forall>a. length (filter (\<lambda>w. fst w = a)
      (new_writes \<lparr>cells = (\<lambda>a. VInt 0), writes = []\<rparr>
        (mem (snd (Parse [''FOO'' \<mapsto> ''10'']
          (register_all (\<lambda>s. (0 :: int, Some (syntaxError ''ParseFloat'' s)))
             [RegInt (Addr 0) ''FOO'' (1 :: 64 word), RegInt (Addr 1) ''BAR'' 2]
             (init \<lparr>cells = (\<lambda>a. VInt 0), writes = []\<rparr>))))))) \<le> 1) \<and>
   Parse [''FOO'' \<mapsto> ''x'']
     (register (\<lambda>s. (0 :: int, Some (syntaxError ''ParseFloat'' s)))
        (RegBool (Addr 0) ''FOO'' True :: (64 word, int) registration)
        (init \<lparr>cells = (\<lambda>a. VInt 0), writes = []\<rparr>)) =
     (Some (Panic (FailedToParse ''FOO'' ''bool'' (NumError ''ParseBool'' ''x'' ErrSyntax))),
      register (\<lambda>s. (0 :: int, Some (syntaxError ''ParseFloat'' s)))
        (RegBool (Addr 0) ''FOO'' True)
        (init \<lparr>cells = (\<lambda>a. VInt 0), writes = []\<rparr>))"
proof -
  have d: "distinct (map dest [RegInt (Addr 0) ''FOO'' (1 :: 64 word), RegInt (Addr 1) ''BAR'' 2 :: (64 word, int) registration])"
    by simp
  have f: "resolve (\<lambda>s. (0 :: int, Some (syntaxError ''ParseFloat'' s))) [''FOO'' \<mapsto> ''x'']
      (RegBool (Addr 0) ''FOO'' True :: (64 word, int) registration) =
      Inl (Panic (FailedToParse ''FOO'' ''bool'' (NumError ''ParseBool'' ''x'' ErrSyntax)))"
    by (simp add: Bool_def value'_def failCast_def ParseBool_def syntaxError_def)
  have one: "\<forall>a. length (filter (\<lambda>w. fst w = a)
      (new_writes \<lparr>cells = (\<lambda>a. VInt 0), writes = []\<rparr>
        (mem (snd (Parse [''FOO'' \<mapsto> ''10'']
          (register_all (\<lambda>s. (0 :: int, Some (syntaxError ''ParseFloat'' s)))
             [RegInt (Addr 0) ''FOO'' (1 :: 64 word), RegInt (Addr 1) ''BAR'' 2]
             (init \<lparr>cells = (\<lambda>a. VInt 0), writes = []\<rparr>))))))) \<le> 1"
    using each_binding_assigns_at_most_once [
        where pf = "\<lambda>s. (0 :: int, Some (syntaxError ''ParseFloat'' s))"
          and env = "[''FOO'' \<mapsto> ''10'']"
          and rs = "[RegInt (Addr 0) ''FOO'' (1 :: 64 word), RegInt (Addr 1) ''BAR'' 2]"
          and m = "\<lparr>cells = (\<lambda>a. VInt 0), writes = []\<rparr>"] d
    by blast
  have two: "Parse [''FOO'' \<mapsto> ''x'']
     (register (\<lambda>s. (0 :: int, Some (syntaxError ''ParseFloat'' s)))
        (RegBool (Addr 0) ''FOO'' True :: (64 word, int) registration)
        (init \<lparr>cells = (\<lambda>a. VInt 0), writes = []\<rparr>)) =
     (Some (Panic (FailedToParse ''FOO'' ''bool'' (NumError ''ParseBool'' ''x'' ErrSyntax))),
      register (\<lambda>s. (0 :: int, Some (syntaxError ''ParseFloat'' s)))
        (RegBool (Addr 0) ''FOO'' True)
        (init \<lparr>cells = (\<lambda>a. VInt 0), writes = []\<rparr>))"
    using each_binding_assigns_at_most_once [
        where pf = "\<lambda>s. (0 :: int, Some (syntaxError ''ParseFloat'' s))"
          and env = "[''FOO'' \<mapsto> ''x'']"
          and rs = "[] :: (64 word, int) registration list"
          and m = "\<lparr>cells = (\<lambda>a. VInt 0), writes = []\<rparr>"] f
    by blast
  from one two show ?thesis by (rule conjI)
qed

text \<open>
  C7 as it is stated fails when two registrations share a destination: with cell 0 registered
  for FOO and again for BAR, both absent, one Parse assigns to cell 0 twice.
\<close>

theorem shared_destination_assigned_twice_counterexample:
  "\<not> length (filter (\<lambda>w. fst w = 0)
      (new_writes \<lparr>cells = (\<lambda>a. VInt64 0), writes = []\<rparr>
        (mem (snd (Parse Map.empty
          (register_all (\<lambda>s. (0 :: int, Some (syntaxError ''ParseFloat'' s)))
             [RegInt64 (Addr 0) ''FOO'' 1, RegInt64 (Addr 0) ''BAR'' 2 :: (64 word, int) registration]
             (init \<lparr>cells = (\<lambda>a. VInt64 0), writes = []\<rparr>))))))) \<le> 1"
proof -
  have "map (write_of (\<lambda>s. (0 :: int, Some (syntaxError ''ParseFloat'' s))) Map.empty)
          [RegInt64 (Addr 0) ''FOO'' 1, RegInt64 (Addr 0) ''BAR'' 2 :: (64 word, int) registration] =
        map Some [(0, VInt64 1), (0, VInt64 2)]"
    by (simp add: write_of_def Int64_def value'_def)
  from Parse_all_ok [OF this, where m = "\<lparr>cells = (\<lambda>a. VInt64 0), writes = []\<rparr>"]
  show ?thesis
    by (simp add: new_writes_def)
qed

text \<open>
  C8. castDuration returns what ParseInt with base 10 and 64 bits returns, taken as a count of
  nanoseconds, and fails exactly when ParseInt fails, with the same error. A variable set to
  \<open>5000000000\<close> resolves, whatever the default, to five seconds; a variable set to \<open>5s\<close> makes
  Duration panic.
\<close>

theorem duration_is_a_nanosecond_count:
  "castDuration s =
     (case ParseInt s 64 of (i, None) \<Rightarrow> (i, None) | (i, Some e) \<Rightarrow> (0, Some e)) \<and>
   (snd (castDuration s) = None) = (snd (ParseInt s 64) = None) \<and>
   Duration (env(name \<mapsto> s)) name d =
     (case ParseInt s 64 of
        (i, None) \<Rightarrow> Inr i
      | (i, Some e) \<Rightarrow> Inl (Panic (FailedToParse name ''time.Duration'' e))) \<and>
   Duration [''TIMEOUT'' \<mapsto> ''5000000000''] ''TIMEOUT'' 0 = Inr (5 * Second) \<and>
   sint (5 * Second) = 5000000000 \<and>
   Duration [''TIMEOUT'' \<mapsto> ''5s''] ''TIMEOUT'' 0 =
     Inl (Panic (FailedToParse ''TIMEOUT'' ''time.Duration'' (NumError ''ParseInt'' ''5s'' ErrSyntax)))"
proof -
  have general: "Duration (env(name \<mapsto> s)) name d =
     (case ParseInt s 64 of
        (i, None) \<Rightarrow> Inr i
      | (i, Some e) \<Rightarrow> Inl (Panic (FailedToParse name ''time.Duration'' e)))" for env name s d
    by (simp add: Duration_def value'_set castDuration_eq split: prod.splits option.splits)
  have five: "ParseInt ''5000000000'' 64 = (5000000000, None)"
    by code_simp
  have bad: "ParseInt ''5s'' 64 = (0, Some (NumError ''ParseInt'' ''5s'' ErrSyntax))"
    by code_simp
  have a: "Duration [''TIMEOUT'' \<mapsto> ''5000000000''] ''TIMEOUT'' 0 = Inr (5 * Second)"
    using general [of Map.empty "''TIMEOUT''" "''5000000000''" 0]
    by (simp add: five Second_def)
  have b: "Duration [''TIMEOUT'' \<mapsto> ''5s''] ''TIMEOUT'' 0 =
     Inl (Panic (FailedToParse ''TIMEOUT'' ''time.Duration'' (NumError ''ParseInt'' ''5s'' ErrSyntax)))"
    using general [of Map.empty "''TIMEOUT''" "''5s''" 0]
    by (simp add: bad)
  have c: "sint (5 * Second) = 5000000000"
    by (simp add: Second_def)
  have e: "(snd (castDuration s) = None) = (snd (ParseInt s 64) = None)"
    by (simp add: castDuration_eq split: prod.splits option.splits)
  show ?thesis
    using general a b c e castDuration_eq by blast
qed

theorem duration_is_a_nanosecond_count_witness:
  "castDuration ''-250'' = (- 250, None) \<and>
   Duration [''TIMEOUT'' \<mapsto> ''5000000000''] ''TIMEOUT'' 0 = Inr (5 * Second) \<and>
   Duration [''TIMEOUT'' \<mapsto> ''5s''] ''TIMEOUT'' 0 =
     Inl (Panic (FailedToParse ''TIMEOUT'' ''time.Duration'' (NumError ''ParseInt'' ''5s'' ErrSyntax)))"
proof -
  have neg: "ParseInt ''-250'' 64 = (- 250, None)"
    by code_simp
  from duration_is_a_nanosecond_count [of "''-250''"]
  show ?thesis
    by (simp add: neg)
qed

text \<open>
  C9. castUint returns the result of castUint64 converted to the width of uint: it fails
  exactly when castUint64, that is the 64-bit ParseUint, fails, and otherwise returns the
  parsed number modulo two to the power of that width. Where uint has 32 bits, the text
  \<open>4294967296\<close> is accepted and yields 0.
\<close>

theorem uint_narrows_without_range_check:
  "(castUint s :: 'w::len word \<times> error option) =
     (case castUint64 s of (i, None) \<Rightarrow> (ucast i, None) | (i, Some e) \<Rightarrow> (0, Some e)) \<and>
   (snd (castUint s :: 'w word \<times> error option) = None) = (snd (castUint64 s) = None) \<and>
   (snd (castUint64 s) = None) = (snd (ParseUint s 64) = None) \<and>
   unat (fst (castUint s :: 'w word \<times> error option)) = unat (fst (castUint64 s)) mod 2 ^ LENGTH('w) \<and>
   castUint64 ''4294967296'' = (4294967296, None) \<and>
   (castUint ''4294967296'' :: 32 word \<times> error option) = (0, None) \<and>
   Uint [''LIMIT'' \<mapsto> ''4294967296''] ''LIMIT'' (7 :: 32 word) = Inr 0"
proof -
  have a: "(castUint s :: 'w word \<times> error option) =
     (case castUint64 s of (i, None) \<Rightarrow> (ucast i, None) | (i, Some e) \<Rightarrow> (0, Some e))"
    by (simp add: castUint_def split: prod.splits option.splits)
  have b: "(snd (castUint s :: 'w word \<times> error option) = None) = (snd (castUint64 s) = None)"
    by (simp add: a split: prod.splits option.splits)
  have c: "(snd (castUint64 s) = None) = (snd (ParseUint s 64) = None)"
    by (simp add: castUint64_eq split: prod.splits option.splits)
  have d: "unat (fst (castUint s :: 'w word \<times> error option)) = unat (fst (castUint64 s)) mod 2 ^ LENGTH('w)"
    by (auto simp: a castUint64_eq unsigned_ucast_eq take_bit_eq_mod split: prod.splits option.splits)
  have p: "ParseUint ''4294967296'' 64 = (4294967296, None)"
    by code_simp
  have e: "castUint64 ''4294967296'' = (4294967296, None)"
    by (simp add: castUint64_eq p)
  have f: "(castUint ''4294967296'' :: 32 word \<times> error option) = (0, None)"
    by (simp add: castUint_eq p)
  have g: "Uint [''LIMIT'' \<mapsto> ''4294967296''] ''LIMIT'' (7 :: 32 word) = Inr 0"
    by (simp add: Uint_def value'_def f)
  from a b c d e f g show ?thesis by blast
qed

theorem uint_narrows_without_range_check_witness:
  "(castUint ''4294967301'' :: 32 word \<times> error option) = (5, None) \<and>
   castUint64 ''4294967296'' = (4294967296, None) \<and>
   Uint [''LIMIT'' \<mapsto> ''4294967296''] ''LIMIT'' (7 :: 32 word) = Inr 0"
proof -
  have p: "castUint64 ''4294967301'' = (4294967301, None)"
    by code_simp
  from uint_narrows_without_range_check [where 'w = 32 and s = "''4294967301''"]
  show ?thesis
    by (simp add: p)
qed



end
